theory Spec2Isabelle
  imports Main "HOL-Library.Word"
begin

section \<open>Data model\<close>

text \<open>
  The three collections of the backend (users, videos, subscriptions) are lists of
  documents, in insertion order. A string of a request or of a document is a JavaScript
  string, that is a list of UTF-16 code units; \<open>js\<close> writes one from its ASCII text. An
  ObjectId is its value of 96 bits. Route and query parameters are strings, also those
  that are meant to be ids. The messages of errors and responses, and the names of
  cookies, are constants of the program and are kept as plain text.
\<close>

type_synonym jsString = "nat list"

definition js :: "string \<Rightarrow> jsString" where
  "js s = map of_char s"

type_synonym objectId = "96 word"

text \<open>JavaScript truthiness of a string that may be absent: a non-empty string.\<close>

fun truthy :: "jsString option \<Rightarrow> bool" where
  "truthy None = False"
| "truthy (Some s) = (s \<noteq> [])"

text \<open>
  What a handler can throw. \<open>ApiError(statusCode, message)\<close> is the error class of
  \<open>utils\<close>, with its status and its message; the other errors come from the JWT library,
  from the language, and from the database.
\<close>

datatype exn =
    ApiError nat string
  | JsonWebTokenError string
  | TypeError string
  | ReferenceError string
  | DatabaseError string

text \<open>
  The Number that \<open>parseInt(s, 10)\<close> gives for the string \<open>s\<close>. The handlers only hand
  it on to the pagination plugin, so it is kept as it is written.
\<close>

datatype number = ParseInt jsString

record user =
  user_id :: objectId
  username :: jsString
  email :: "jsString option"
  fullName :: "jsString option"
  password :: "jsString option"
  avatar :: "jsString option"
  coverImage :: "jsString option"
  refreshToken :: "jsString option"
  watchHistory :: "objectId list"

record video =
  video_id :: objectId
  title :: jsString
  description :: jsString
  duration :: nat
  thumbnail :: jsString
  videoFile :: jsString
  owner :: objectId
  views :: nat
  isPublished :: bool

record subscription =
  sub_id :: objectId
  subscriber :: objectId
  channel :: objectId

record db =
  users :: "user list"
  videos :: "video list"
  subscriptions :: "subscription list"

text \<open>The projection \<open>populate("owner", ["username", "avatar"])\<close> of a video's owner.\<close>

record ownerInfo =
  oi_id :: objectId
  oi_username :: jsString
  oi_avatar :: "jsString option"

record populatedVideo =
  pv_video :: video
  pv_owner :: "ownerInfo option"

text \<open>The projection of a user without \<open>password\<close> and \<open>refreshToken\<close>.\<close>

record safeUser =
  su_id :: objectId
  su_username :: jsString
  su_email :: "jsString option"
  su_fullName :: "jsString option"
  su_avatar :: "jsString option"
  su_coverImage :: "jsString option"
  su_watchHistory :: "objectId list"

text \<open>The owner projection of the watch-history pipeline.\<close>

record historyOwner =
  ho_id :: objectId
  ho_username :: jsString
  ho_email :: "jsString option"
  ho_fullName :: "jsString option"
  ho_avatar :: "jsString option"

record historyVideo =
  hv_video :: video
  hv_owner :: "historyOwner list"

text \<open>A value inside an aggregation pipeline: an ObjectId or a subscription document.\<close>

datatype bson = BId objectId | BSubscription subscription | BNull

record channelProfile =
  cp_user :: safeUser
  cp_subscribers :: "subscription list"
  cp_subscribedTo :: "subscription list"
  subscribersCount :: nat
  subscribedToCount :: nat
  isSubscribed :: bool

record videoPage =
  pg_videos :: "populatedVideo list"
  totalVideos :: nat
  totalPages :: nat
  currentPage :: number

datatype payload =
    NoData
  | BoolData bool
  | VideoData populatedVideo
  | UserData safeUser
  | SubscriptionData subscription
  | TokenData jsString jsString
  | HistoryData "historyVideo list"
  | ChannelData channelProfile
  | PageData videoPage

text \<open>
  Modelled from the spec: the class \<open>ApiResponse\<close> (in \<open>utils/index.js\<close>, which is not
  among the sources) is the envelope \<open>{statusCode, success, message, data}\<close>. Every call
  site passes \<open>(statusCode, message, data)\<close> in this order; a call with two arguments
  leaves the data out.
\<close>

record apiResponse =
  statusCode :: nat
  message :: string
  data :: payload

definition ApiResponse :: "nat \<Rightarrow> string \<Rightarrow> payload \<Rightarrow> apiResponse" where
  "ApiResponse sc msg d = \<lparr>statusCode = sc, message = msg, data = d\<rparr>"

text \<open>What \<open>res.status(..).cookie(..).json(..)\<close> sends.\<close>

record httpResponse =
  httpStatus :: nat
  cookies :: "(string \<times> jsString) list"
  json :: apiResponse

definition respond :: "nat \<Rightarrow> apiResponse \<Rightarrow> httpResponse" where
  "respond st b = \<lparr>httpStatus = st, cookies = [], json = b\<rparr>"

record uploadedFile =
  path :: jsString

record files =
  files_avatar :: "uploadedFile list option"
  files_coverImage :: "uploadedFile list option"

record request =
  req_user :: "objectId option"
  param_videoId :: jsString
  param_channelId :: jsString
  param_username :: "jsString option"
  body_username :: "jsString option"
  body_email :: "jsString option"
  body_password :: "jsString option"
  body_fullName :: "jsString option"
  body_refreshToken :: "jsString option"
  cookie_refreshToken :: "jsString option"
  req_files :: "files option"
  query_page :: "jsString option"
  query_limit :: "jsString option"
  query_sortBy :: "jsString option"
  query_sortType :: "jsString option"
  query_query :: "jsString option"
  query_userId :: "jsString option"

type_synonym 'a result = "(exn + 'a) \<times> db"

section \<open>External collaborators\<close>

text \<open>
  The JWT library, the methods and the schema of the user model, the media host, and the
  pagination plugin are not among the sources; the handlers take them as parameters.
  \<open>jwt_verify\<close> checks a token against the refresh secret and gives the \<open>_id\<close> of the
  decoded payload, or the message of the \<open>JsonWebTokenError\<close> it throws.
  \<open>uploadOnCloudinary\<close> gives the \<open>url\<close> of the uploaded asset, if there is one.
  \<open>schemaAccepts\<close> is the validation that \<open>User.create\<close> runs on a new document against
  the stored ones. \<open>unicodeToLowerCase\<close> is the case mapping of the language for a
  string that has a code unit outside ASCII. \<open>castOtherText\<close> is what the database
  driver makes of an id text that is not 24 hex digits (some versions read a text of 12
  characters as the 12 bytes of an id, others reject it).
\<close>

record searchQuery =
  sq_regex :: jsString
  sq_owner :: "objectId option"

record paginateOptions =
  po_page :: number
  po_limit :: number
  po_sort :: "jsString \<times> int"

record env =
  jwt_verify :: "jsString \<Rightarrow> string + objectId"
  generateAccessToken :: "user \<Rightarrow> jsString"
  generateRefreshToken :: "user \<Rightarrow> jsString"
  uploadOnCloudinary :: "jsString \<Rightarrow> jsString option"
  schemaAccepts :: "user \<Rightarrow> user list \<Rightarrow> bool"
  paginate :: "searchQuery \<Rightarrow> paginateOptions \<Rightarrow> db \<Rightarrow> videoPage"
  unicodeToLowerCase :: "jsString \<Rightarrow> jsString"
  castOtherText :: "jsString \<Rightarrow> objectId option"

section \<open>Strings and ids of the host language\<close>

text \<open>
  \<open>String.prototype.trim\<close> removes white space and line terminators at both ends: tab,
  line feed, vertical tab, form feed, carriage return, space, no-break space (U+00A0),
  U+1680, U+2000 to U+200A, U+2028, U+2029, U+202F, U+205F, U+3000 and U+FEFF.
\<close>

definition isWhiteSpace :: "nat \<Rightarrow> bool" where
  "isWhiteSpace c =
     (c \<in> {9, 10, 11, 12, 13, 32, 160, 5760, 8232, 8233, 8239, 8287, 12288, 65279}
      \<or> (8192 \<le> c \<and> c \<le> 8202))"

definition trim :: "jsString \<Rightarrow> jsString" where
  "trim s = rev (dropWhile isWhiteSpace (rev (dropWhile isWhiteSpace s)))"

text \<open>
  \<open>String.prototype.toLowerCase\<close>: in a string of ASCII code units the letters A to Z
  become a to z and nothing else changes; any other string is mapped by the Unicode case
  mapping of the language.
\<close>

definition lowerAscii :: "nat \<Rightarrow> nat" where
  "lowerAscii c = (if 65 \<le> c \<and> c \<le> 90 then c + 32 else c)"

definition toLowerCase :: "env \<Rightarrow> jsString \<Rightarrow> jsString" where
  "toLowerCase e s =
     (if list_all (\<lambda>c. c < 128) s then map lowerAscii s else unicodeToLowerCase e s)"

text \<open>
  The text of an ObjectId (\<open>toString\<close>, \<open>toHexString\<close>): its 24 hex digits, in lower
  case.
\<close>

definition hexDigit :: "nat \<Rightarrow> nat" where
  "hexDigit d = (if d < 10 then 48 + d else 87 + d)"

fun hexN :: "nat \<Rightarrow> nat \<Rightarrow> jsString" where
  "hexN 0 n = []"
| "hexN (Suc k) n = hexN k (n div 16) @ [hexDigit (n mod 16)]"

definition toHexString :: "objectId \<Rightarrow> jsString" where
  "toHexString i = hexN 24 (unat i)"

text \<open>
  The cast of a string to an ObjectId, as the queries of the models do it: a string of
  24 hex digits, in either case, is the id with these digits. \<open>isValidObjectId\<close> is
  true of a string when it can be cast.
\<close>

definition isHexDigit :: "nat \<Rightarrow> bool" where
  "isHexDigit c =
     ((48 \<le> c \<and> c \<le> 57) \<or> (65 \<le> c \<and> c \<le> 70) \<or> (97 \<le> c \<and> c \<le> 102))"

definition hexVal :: "nat \<Rightarrow> nat" where
  "hexVal c = (if c \<le> 57 then c - 48 else if c \<le> 70 then c - 55 else c - 87)"

definition hexValue :: "jsString \<Rightarrow> nat" where
  "hexValue s = foldl (\<lambda>a c. 16 * a + hexVal c) 0 s"

definition castObjectId :: "env \<Rightarrow> jsString \<Rightarrow> objectId option" where
  "castObjectId e s =
     (if length s = 24 \<and> list_all isHexDigit s then Some (of_nat (hexValue s))
      else castOtherText e s)"

definition isValidObjectId :: "env \<Rightarrow> jsString \<Rightarrow> bool" where
  "isValidObjectId e s = (castObjectId e s \<noteq> None)"

text \<open>
  \<open>includes\<close> of a Mongoose array of ObjectIds, asked for a string: the string is
  compared by \<open>==\<close> with each element, that is with the text of the element.
\<close>

definition array_includes :: "objectId list \<Rightarrow> jsString \<Rightarrow> bool" where
  "array_includes xs s = list_ex (\<lambda>x. s = toHexString x) xs"

text \<open>The \<open>message\<close> property of a thrown error.\<close>

fun exn_message :: "exn \<Rightarrow> string" where
  "exn_message (ApiError _ m) = m"
| "exn_message (JsonWebTokenError m) = m"
| "exn_message (TypeError m) = m"
| "exn_message (ReferenceError m) = m"
| "exn_message (DatabaseError m) = m"

fun isJsonWebTokenError :: "exn \<Rightarrow> bool" where
  "isJsonWebTokenError (JsonWebTokenError _) = True"
| "isJsonWebTokenError _ = False"

text \<open>An array is truthy, also when it is empty.\<close>

definition truthyArray :: "'a list \<Rightarrow> bool" where
  "truthyArray xs = True"

section \<open>Collection operations\<close>

text \<open>\<open>findById\<close> and \<open>findOne\<close> return the first matching document.\<close>

definition User_findById :: "db \<Rightarrow> objectId \<Rightarrow> user option" where
  "User_findById d i = find (\<lambda>u. user_id u = i) (users d)"

definition Video_findById :: "db \<Rightarrow> objectId \<Rightarrow> video option" where
  "Video_findById d i = find (\<lambda>v. video_id v = i) (videos d)"

text \<open>An update by id changes the first matching document and no other.\<close>

fun updateFirst :: "('a \<Rightarrow> bool) \<Rightarrow> ('a \<Rightarrow> 'a) \<Rightarrow> 'a list \<Rightarrow> 'a list" where
  "updateFirst p f [] = []"
| "updateFirst p f (x # xs) = (if p x then f x # xs else x # updateFirst p f xs)"

fun deleteFirst :: "('a \<Rightarrow> bool) \<Rightarrow> 'a list \<Rightarrow> 'a list" where
  "deleteFirst p [] = []"
| "deleteFirst p (x # xs) = (if p x then xs else x # deleteFirst p xs)"

definition populateOwner :: "db \<Rightarrow> video \<Rightarrow> populatedVideo" where
  "populateOwner d v =
     \<lparr>pv_video = v,
      pv_owner = map_option
        (\<lambda>u. \<lparr>oi_id = user_id u, oi_username = username u, oi_avatar = avatar u\<rparr>)
        (User_findById d (owner v))\<rparr>"

section \<open>Video handlers\<close>

text \<open>
  \<open>getSingleVideo\<close>: the body of the \<open>try\<close> block first, then the handler, whose
  \<open>catch\<close> turns whatever the block throws into \<open>ApiError(500, "Failed to fetch video")\<close>.
  Writes made before a throw stay. \<open>findByIdAndUpdate\<close> casts the route parameter and,
  with \<open>new: true\<close>, gives the document after the increment.
  \<open>user.watchHistory.includes(videoId)\<close> is asked for the route parameter as it was
  sent; \<open>push(videoId)\<close> casts it and appends the id.
\<close>

definition getSingleVideo_try ::
    "db \<Rightarrow> request \<Rightarrow> objectId \<Rightarrow> httpResponse result" where
  "getSingleVideo_try d req videoId =
     (let d1 = d\<lparr>videos := updateFirst (\<lambda>v. video_id v = videoId)
                                (\<lambda>v. v\<lparr>views := views v + 1\<rparr>) (videos d)\<rparr>
      in case Video_findById d1 videoId of
           None \<Rightarrow> (Inl (ApiError 404 ''Video not found''), d1)
         | Some v \<Rightarrow>
             (let video = populateOwner d1 v;
                  d2 = (case req_user req of
                          None \<Rightarrow> d1
                        | Some userId \<Rightarrow>
                            (case User_findById d1 userId of
                               None \<Rightarrow> d1
                             | Some u \<Rightarrow>
                                 if \<not> array_includes (watchHistory u) (param_videoId req)
                                 then d1\<lparr>users := updateFirst (\<lambda>x. user_id x = userId)
                                        (\<lambda>x. x\<lparr>watchHistory := watchHistory x @ [videoId]\<rparr>)
                                        (users d1)\<rparr>
                                 else d1))
              in (Inr (respond 200
                    (ApiResponse 200 ''Video fetched successfully'' (VideoData video))), d2)))"

definition getSingleVideo :: "env \<Rightarrow> db \<Rightarrow> request \<Rightarrow> httpResponse result" where
  "getSingleVideo e d req =
     (if \<not> isValidObjectId e (param_videoId req)
      then (Inl (ApiError 400 ''Invalid video id''), d)
      else
        (case (case castObjectId e (param_videoId req) of
                 None \<Rightarrow> (Inl (DatabaseError ''Cast to ObjectId failed''), d)
               | Some videoId \<Rightarrow> getSingleVideo_try d req videoId) of
           (Inl error, d') \<Rightarrow> (Inl (ApiError 500 ''Failed to fetch video''), d')
         | (Inr res, d') \<Rightarrow> (Inr res, d')))"

text \<open>
  The names bound in the module of the video handlers: its imports (\<open>Video\<close>, \<open>User\<close>,
  five names of \<open>utils\<close>, and \<open>isValidObjectId\<close> of mongoose). Reading any other free
  name throws a \<open>ReferenceError\<close>.
\<close>

definition videoModuleScope :: "string list" where
  "videoModuleScope =
     [''Video'', ''User'', ''asyncHandler'', ''ApiResponse'', ''uploadOnCloudinary'',
      ''deleteFromCloudinary'', ''ApiError'', ''isValidObjectId'']"

definition readName :: "string \<Rightarrow> exn + unit" where
  "readName x =
     (if x \<in> set videoModuleScope then Inr ()
      else Inl (ReferenceError (x @ '' is not defined'')))"

text \<open>
  \<open>getAllTheVideos\<close>. The condition \<open>userId && mongoose.Types.ObjectId.isValid(userId)\<close>
  reads the name \<open>mongoose\<close> when \<open>userId\<close> is truthy. The defaults \<open>1\<close> and \<open>10\<close> of
  \<open>page\<close> and \<open>limit\<close> reach \<open>parseInt\<close> as the strings \<open>"1"\<close> and \<open>"10"\<close>.
\<close>

definition getAllTheVideos :: "env \<Rightarrow> db \<Rightarrow> request \<Rightarrow> httpResponse result" where
  "getAllTheVideos e d req =
     (let pageNumber = ParseInt (case query_page req of None \<Rightarrow> js ''1'' | Some s \<Rightarrow> s);
          limitNumber = ParseInt (case query_limit req of None \<Rightarrow> js ''10'' | Some s \<Rightarrow> s);
          sortBy = (case query_sortBy req of None \<Rightarrow> js ''createdAt'' | Some s \<Rightarrow> s);
          sortType = (case query_sortType req of None \<Rightarrow> js ''desc'' | Some s \<Rightarrow> s);
          query = (case query_query req of None \<Rightarrow> [] | Some s \<Rightarrow> s)
      in if toLowerCase e sortType \<notin> set [js ''asc'', js ''desc'']
         then (Inl (ApiError 400 ''Invalid sort type''), d)
         else
           (let sort = (sortBy, if toLowerCase e sortType = js ''asc'' then 1 else - 1);
                searchQuery = \<lparr>sq_regex = query, sq_owner = None\<rparr>;
                scoped =
                  (if truthy (query_userId req)
                   then (case readName ''mongoose'' of
                           Inl error \<Rightarrow> Inl error
                         | Inr _ \<Rightarrow>
                             (case query_userId req of
                                None \<Rightarrow> Inr searchQuery
                              | Some userId \<Rightarrow>
                                  (case castObjectId e userId of
                                     None \<Rightarrow> Inr searchQuery
                                   | Some i \<Rightarrow> Inr (searchQuery\<lparr>sq_owner := Some i\<rparr>))))
                   else Inr searchQuery)
            in case scoped of
                 Inl error \<Rightarrow> (Inl error, d)
               | Inr searchQuery' \<Rightarrow>
                   (let options = \<lparr>po_page = pageNumber, po_limit = limitNumber, po_sort = sort\<rparr>;
                        result = paginate e searchQuery' options d
                    in (Inr (respond 200
                          (ApiResponse 200 ''Videos fetched successfully'' (PageData result))), d))))"

text \<open>The video is fetched \<open>n\<close> times in a row by the same request.\<close>

fun repeatGet :: "nat \<Rightarrow> env \<Rightarrow> db \<Rightarrow> request \<Rightarrow> db" where
  "repeatGet 0 e d req = d"
| "repeatGet (Suc n) e d req = repeatGet n e (snd (getSingleVideo e d req)) req"

section \<open>User handlers\<close>

text \<open>
  A new document gets an id from the driver; here it is one more than the greatest id
  of the collection.
\<close>

definition freshId :: "objectId list \<Rightarrow> objectId" where
  "freshId ids = foldr max ids 0 + 1"

definition safe :: "user \<Rightarrow> safeUser" where
  "safe u =
     \<lparr>su_id = user_id u, su_username = username u, su_email = email u,
      su_fullName = fullName u, su_avatar = avatar u, su_coverImage = coverImage u,
      su_watchHistory = watchHistory u\<rparr>"

text \<open>
  \<open>User.findOne({$or: [{username}, {email}]})\<close>: the strings of the query are compared
  with the stored ones, by equality. A stored user always has a username; a missing
  \<open>email\<close> in the query is sent as null and matches the documents that have no email.
\<close>

definition User_findOne_username_or_email ::
    "db \<Rightarrow> jsString option \<Rightarrow> jsString option \<Rightarrow> user option" where
  "User_findOne_username_or_email d uname em =
     find (\<lambda>u. Some (username u) = uname \<or> email u = em) (users d)"

text \<open>\<open>req.files?.avatar[0]?.path\<close>: only a missing \<open>avatar\<close> entry of present files throws.\<close>

definition avatarPath :: "request \<Rightarrow> exn + jsString option" where
  "avatarPath req =
     (case req_files req of
        None \<Rightarrow> Inr None
      | Some fs \<Rightarrow>
          (case files_avatar fs of
             None \<Rightarrow> Inl (TypeError ''Cannot read properties of undefined'')
           | Some [] \<Rightarrow> Inr None
           | Some (f # _) \<Rightarrow> Inr (Some (path f))))"

definition coverImagePath :: "request \<Rightarrow> jsString option" where
  "coverImagePath req =
     (case req_files req of
        None \<Rightarrow> None
      | Some fs \<Rightarrow>
          (case files_coverImage fs of
             None \<Rightarrow> None
           | Some [] \<Rightarrow> None
           | Some (f # _) \<Rightarrow> Some (path f)))"

text \<open>
  \<open>register\<close>. The password is stored as it is given: hashing is done by a hook of the
  user model.
\<close>

definition defaultCoverImage :: jsString where
  "defaultCoverImage =
     js (''https://images.unsplash.com/photo-1545486332-9e0999c535b2''
         @ ''?q=80&w=1374&auto=format&fit=crop&ixlib=rb-4.0.3''
         @ ''&ixid=M3wxMjA3fDB8MHxwaG90by1wYWdlfHx8fGVufDB8fHx8fA%3D%3D'')"

definition register :: "env \<Rightarrow> db \<Rightarrow> request \<Rightarrow> httpResponse result" where
  "register e d req =
     (if list_ex (\<lambda>field. map_option trim field = Some [])
           [body_username req, body_email req, body_password req, body_fullName req]
      then (Inl (ApiError 400 ''All fields are required''), d)
      else
        (case User_findOne_username_or_email d (body_username req) (body_email req) of
           Some duplicateUser \<Rightarrow> (Inl (ApiError 400 ''Username or email already exists''), d)
         | None \<Rightarrow>
             (case avatarPath req of
                Inl error \<Rightarrow> (Inl error, d)
              | Inr avatarLocalPath \<Rightarrow>
                  (case avatarLocalPath of
                     None \<Rightarrow> (Inl (ApiError 400 ''Please provide an avatar''), d)
                   | Some p \<Rightarrow>
                       if p = [] then (Inl (ApiError 400 ''Please provide an avatar''), d)
                       else
                         (let avatarUrl = uploadOnCloudinary e p;
                              coverImageUrl =
                                (case coverImagePath req of
                                   None \<Rightarrow> Some defaultCoverImage
                                 | Some c \<Rightarrow>
                                     if c = [] then Some defaultCoverImage
                                     else uploadOnCloudinary e c)
                          in case body_username req of
                               None \<Rightarrow> (Inl (TypeError ''Cannot read properties of undefined''), d)
                             | Some uname \<Rightarrow>
                                 (let newUser =
                                        \<lparr>user_id = freshId (map user_id (users d)),
                                         username = toLowerCase e uname,
                                         email = body_email req,
                                         fullName = body_fullName req,
                                         password = body_password req,
                                         avatar = avatarUrl,
                                         coverImage = coverImageUrl,
                                         refreshToken = None,
                                         watchHistory = []\<rparr>
                                  in if \<not> schemaAccepts e newUser (users d)
                                     then (Inl (DatabaseError ''User.create rejected the document''), d)
                                     else
                                       (let d' = d\<lparr>users := users d @ [newUser]\<rparr>
                                        in case User_findById d' (user_id newUser) of
                                             None \<Rightarrow> (Inl (ApiError 500 ''User not created''), d')
                                           | Some createdUser \<Rightarrow>
                                               (Inr (respond 201
                                                  (ApiResponse 201 ''User created''
                                                     (UserData (safe createdUser)))), d'))))))))"

text \<open>
  \<open>generateAccessAndRefreshTokens\<close>: a user that is not found makes the method call on
  \<open>null\<close> throw, which the \<open>catch\<close> turns into the 500.
\<close>

definition generateAccessAndRefreshTokens ::
    "env \<Rightarrow> db \<Rightarrow> objectId \<Rightarrow> (jsString \<times> jsString) result" where
  "generateAccessAndRefreshTokens e d userId =
     (case User_findById d userId of
        None \<Rightarrow>
          (Inl (ApiError 500 ''Something went wrong while generating refresh and access token''), d)
      | Some u \<Rightarrow>
          (let accessToken = generateAccessToken e u;
               newRefreshToken = generateRefreshToken e u
           in (Inr (accessToken, newRefreshToken),
               d\<lparr>users := updateFirst (\<lambda>x. user_id x = userId)
                              (\<lambda>x. x\<lparr>refreshToken := Some newRefreshToken\<rparr>) (users d)\<rparr>)))"

text \<open>\<open>refreshAccessToken\<close>: the body of the \<open>try\<close> block, then the handler with its \<open>catch\<close>.\<close>

definition refreshAccessToken_try :: "env \<Rightarrow> db \<Rightarrow> jsString \<Rightarrow> httpResponse result" where
  "refreshAccessToken_try e d incomingRefreshToken =
     (case jwt_verify e incomingRefreshToken of
        Inl m \<Rightarrow> (Inl (JsonWebTokenError m), d)
      | Inr decoded_id \<Rightarrow>
          (case User_findById d decoded_id of
             None \<Rightarrow> (Inl (ApiError 401 ''Invalid refresh token''), d)
           | Some foundUser \<Rightarrow>
               if Some incomingRefreshToken \<noteq> refreshToken foundUser
               then (Inl (ApiError 401 ''Invalid refresh token''), d)
               else
                 (case generateAccessAndRefreshTokens e d (user_id foundUser) of
                    (Inl error, d') \<Rightarrow> (Inl error, d')
                  | (Inr (accessToken, newRefreshToken), d') \<Rightarrow>
                      (Inr \<lparr>httpStatus = 200,
                            cookies = [(''accessToken'', accessToken),
                                       (''refreshToken'', newRefreshToken)],
                            json = ApiResponse 200 ''Access token refreshed''
                                     (TokenData accessToken newRefreshToken)\<rparr>, d'))))"

definition refreshAccessToken :: "env \<Rightarrow> db \<Rightarrow> request \<Rightarrow> httpResponse result" where
  "refreshAccessToken e d req =
     (let incomingRefreshToken =
            (if truthy (cookie_refreshToken req) then cookie_refreshToken req
             else body_refreshToken req)
      in case incomingRefreshToken of
           None \<Rightarrow> (Inl (ApiError 401 ''unauthorized request''), d)
         | Some t \<Rightarrow>
             if t = [] then (Inl (ApiError 401 ''unauthorized request''), d)
             else
               (case refreshAccessToken_try e d t of
                  (Inl error, d') \<Rightarrow>
                    (let statusCode = (if isJsonWebTokenError error then 403 else 500)
                     in (Inl (ApiError statusCode
                               (if exn_message error = [] then ''Invalid refresh token''
                                else exn_message error)), d'))
                | (Inr res, d') \<Rightarrow> (Inr res, d')))"

text \<open>
  \<open>getUserChannelProfile\<close>. The two \<open>$lookup\<close> stages collect the subscription documents
  whose \<open>channel\<close>, respectively \<open>subscriber\<close>, is the matched user; \<open>$in\<close> asks whether
  its first operand is an element of the array it is given, here \<open>$subscribedTo\<close>.
\<close>

definition inArray :: "bson \<Rightarrow> bson list \<Rightarrow> bool" where
  "inArray x xs = (x \<in> set xs)"

definition channelOf :: "db \<Rightarrow> request \<Rightarrow> user \<Rightarrow> channelProfile" where
  "channelOf d req u =
     (let subscribers = filter (\<lambda>s. channel s = user_id u) (subscriptions d);
          subscribedTo = filter (\<lambda>s. subscriber s = user_id u) (subscriptions d)
      in \<lparr>cp_user = safe u,
          cp_subscribers = subscribers,
          cp_subscribedTo = subscribedTo,
          subscribersCount = length subscribers,
          subscribedToCount = length subscribedTo,
          isSubscribed =
            (if inArray (case req_user req of None \<Rightarrow> BNull | Some i \<Rightarrow> BId i)
                  (map BSubscription subscribedTo)
             then True else False)\<rparr>)"

definition getUserChannelProfile :: "db \<Rightarrow> request \<Rightarrow> httpResponse result" where
  "getUserChannelProfile d req =
     (case param_username req of
        None \<Rightarrow> (Inl (ApiError 400 ''user name is missing''), d)
      | Some uname \<Rightarrow>
          if trim uname = [] then (Inl (ApiError 400 ''user name is missing''), d)
          else
            (case map (channelOf d req) (filter (\<lambda>u. username u = uname) (users d)) of
               [] \<Rightarrow> (Inl (ApiError 404 ''channel does not exist''), d)
             | c # _ \<Rightarrow> (Inr (respond 200 (ApiResponse 200 ''success'' (ChannelData c))), d)))"

text \<open>
  \<open>getWatchHistory\<close>. The \<open>$lookup\<close> replaces the list of ids by the stored videos whose
  id is in it, each with its owner looked up and projected. Without \<open>req.user\<close> the
  \<open>$match\<close> is on a newly made ObjectId, which no document has. The \<open>owner\<close> field
  that \<open>$addFields\<close> puts on the user document is not part of the response.
\<close>

definition historyOwnerOf :: "user \<Rightarrow> historyOwner" where
  "historyOwnerOf u =
     \<lparr>ho_id = user_id u, ho_username = username u, ho_email = email u,
      ho_fullName = fullName u, ho_avatar = avatar u\<rparr>"

definition lookupHistory :: "db \<Rightarrow> user \<Rightarrow> historyVideo list" where
  "lookupHistory d u =
     map (\<lambda>v. \<lparr>hv_video = v,
               hv_owner = map historyOwnerOf (filter (\<lambda>w. user_id w = owner v) (users d))\<rparr>)
         (filter (\<lambda>v. video_id v \<in> set (watchHistory u)) (videos d))"

definition getWatchHistory :: "db \<Rightarrow> request \<Rightarrow> httpResponse result" where
  "getWatchHistory d req =
     (let userWatchHistory =
            map (lookupHistory d) (filter (\<lambda>u. Some (user_id u) = req_user req) (users d))
      in case userWatchHistory of
           [] \<Rightarrow> (Inr (respond 404 (ApiResponse 404 ''Watch history not found'' NoData)), d)
         | h # _ \<Rightarrow>
             if \<not> truthyArray h
             then (Inr (respond 404 (ApiResponse 404 ''Watch history not found'' NoData)), d)
             else (Inr (respond 200 (ApiResponse 200 ''success'' (HistoryData h))), d))"

section \<open>Subscription handlers\<close>

text \<open>
  The subscribe branch calls \<open>new ApiResponse(200, "Subscribed successfully",
  newSubscription, true)\<close>: the envelope has no field for a fourth argument.
\<close>

definition ApiResponse4 :: "nat \<Rightarrow> string \<Rightarrow> payload \<Rightarrow> payload \<Rightarrow> apiResponse" where
  "ApiResponse4 sc msg d extra = ApiResponse sc msg d"

definition toggleSubscription :: "env \<Rightarrow> db \<Rightarrow> request \<Rightarrow> httpResponse result" where
  "toggleSubscription e d req =
     (if \<not> isValidObjectId e (param_channelId req)
      then (Inl (ApiError 400 ''Invalid channel id''), d)
      else
        (case req_user req of
           None \<Rightarrow> (Inl (TypeError ''Cannot read properties of undefined''), d)
         | Some uid \<Rightarrow>
             (case castObjectId e (param_channelId req) of
                None \<Rightarrow> (Inl (DatabaseError ''Cast to ObjectId failed''), d)
              | Some channelId \<Rightarrow>
               (case find (\<lambda>s. subscriber s = uid \<and> channel s = channelId) (subscriptions d) of
                  Some subscription \<Rightarrow>
                    (Inr (respond 200
                       (ApiResponse 200 ''Unsubscribed successfully'' (BoolData False))),
                     d\<lparr>subscriptions :=
                         deleteFirst (\<lambda>s. sub_id s = sub_id subscription) (subscriptions d)\<rparr>)
                | None \<Rightarrow>
                    (let newSubscription =
                           \<lparr>sub_id = freshId (map sub_id (subscriptions d)),
                            subscriber = uid, channel = channelId\<rparr>
                     in (Inr (respond 200
                           (ApiResponse4 200 ''Subscribed successfully''
                              (SubscriptionData newSubscription) (BoolData True))),
                         d\<lparr>subscriptions := subscriptions d @ [newSubscription]\<rparr>))))))"

section \<open>Example data\<close>

text \<open>
  A request with nothing in it; an environment; and a small database: two users, a
  draft video of the first, and a subscription of the second user to the first. The JWT
  library of the environment accepts two tokens of user 1, its user schema has unique
  usernames and emails, and its driver reads a text of 12 ASCII characters as the 12
  bytes of an id. Its case mapping of a string that is not ASCII maps the letters of
  Latin-1; the examples have ASCII strings only and never ask for it.
\<close>

definition lowerLatin1 :: "nat \<Rightarrow> nat" where
  "lowerLatin1 c =
     (if (65 \<le> c \<and> c \<le> 90) \<or> (192 \<le> c \<and> c \<le> 214) \<or> (216 \<le> c \<and> c \<le> 222)
      then c + 32 else c)"

definition bytes12 :: "jsString \<Rightarrow> objectId option" where
  "bytes12 s =
     (if length s = 12 \<and> list_all (\<lambda>c. c < 128) s
      then Some (of_nat (foldl (\<lambda>a c. 256 * a + c) 0 s)) else None)"

definition emptyDb :: db where
  "emptyDb = \<lparr>users = [], videos = [], subscriptions = []\<rparr>"

definition plainRequest :: request where
  "plainRequest =
     \<lparr>req_user = None, param_videoId = [], param_channelId = [],
      param_username = None, body_username = None, body_email = None,
      body_password = None, body_fullName = None, body_refreshToken = None,
      cookie_refreshToken = None, req_files = None, query_page = None,
      query_limit = None, query_sortBy = None, query_sortType = None,
      query_query = None, query_userId = None\<rparr>"

definition testEnv :: env where
  "testEnv =
     \<lparr>jwt_verify = (\<lambda>t. if t = js ''stale-token'' \<or> t = js ''current-token'' then Inr 1
                         else Inl ''invalid signature''),
      generateAccessToken = (\<lambda>u. js ''access-'' @ username u),
      generateRefreshToken = (\<lambda>u. js ''refresh-'' @ username u),
      uploadOnCloudinary = (\<lambda>p. Some (js ''https://media.example'' @ p)),
      schemaAccepts = (\<lambda>u us. username u \<notin> set (map username us)
                              \<and> email u \<notin> set (map email us)),
      paginate = (\<lambda>q opts d.
         \<lparr>pg_videos = [], totalVideos = 0, totalPages = 0, currentPage = po_page opts\<rparr>),
      unicodeToLowerCase = map lowerLatin1,
      castOtherText = bytes12\<rparr>"

definition alice :: user where
  "alice =
     \<lparr>user_id = 1, username = js ''alice'', email = Some (js ''alice@example.org''),
      fullName = Some (js ''Alice''), password = Some (js ''hash-a''),
      avatar = Some (js ''a.png''), coverImage = None,
      refreshToken = Some (js ''current-token''), watchHistory = []\<rparr>"

definition bob :: user where
  "bob =
     \<lparr>user_id = 2, username = js ''bob'', email = Some (js ''bob@example.org''),
      fullName = Some (js ''Bob''), password = Some (js ''hash-b''),
      avatar = Some (js ''b.png''), coverImage = None, refreshToken = None,
      watchHistory = []\<rparr>"

definition draftVideo :: video where
  "draftVideo =
     \<lparr>video_id = 10, title = js ''Draft'', description = js ''not published yet'',
      duration = 42, thumbnail = js ''t.png'', videoFile = js ''v.mp4'', owner = 1,
      views = 0, isPublished = False\<rparr>"

definition exampleDb :: db where
  "exampleDb =
     \<lparr>users = [alice, bob], videos = [draftVideo],
      subscriptions = [\<lparr>sub_id = 100, subscriber = 2, channel = 1\<rparr>]\<rparr>"

definition registerBob :: request where
  "registerBob =
     plainRequest\<lparr>body_username := Some (js ''bob''),
       body_email := Some (js ''bob@example.org''),
       body_password := Some (js ''secret''), body_fullName := Some (js ''Bob B''),
       req_files := Some \<lparr>files_avatar = Some [\<lparr>path = js ''/tmp/bob.png''\<rparr>],
                          files_coverImage = None\<rparr>\<rparr>"

text \<open>The same username again, with another email and another full name.\<close>

definition registerBobAgain :: request where
  "registerBobAgain =
     registerBob\<lparr>body_email := Some (js ''robert@example.org''),
       body_fullName := Some (js ''Robert'')\<rparr>"

text \<open>The same username and email again, with a password of three spaces.\<close>

definition registerBobBlank :: request where
  "registerBobBlank = registerBob\<lparr>body_password := Some (js ''   '')\<rparr>"

text \<open>
  A registration with the username \<open>Bob\<close>, and the same username again with another
  email.
\<close>

definition registerCapitalBob :: request where
  "registerCapitalBob = registerBob\<lparr>body_username := Some (js ''Bob'')\<rparr>"

definition registerCapitalBobAgain :: request where
  "registerCapitalBobAgain =
     registerCapitalBob\<lparr>body_email := Some (js ''robert@example.org'')\<rparr>"

text \<open>Another username with the email of \<open>bob\<close>.\<close>

definition registerRobertSameEmail :: request where
  "registerRobertSameEmail = registerBob\<lparr>body_username := Some (js ''robert'')\<rparr>"


text \<open>A registration whose body has no \<open>username\<close>.\<close>

definition registerNoUsername :: request where
  "registerNoUsername = registerBob\<lparr>body_username := None\<rparr>"

definition staleRefresh :: request where
  "staleRefresh = plainRequest\<lparr>cookie_refreshToken := Some (js ''stale-token'')\<rparr>"

definition bobViewsAlice :: request where
  "bobViewsAlice = plainRequest\<lparr>req_user := Some 2, param_username := Some (js ''alice'')\<rparr>"

text \<open>The id of the draft video, in lower case and with an upper-case digit.\<close>

definition bobWatchesDraft :: request where
  "bobWatchesDraft =
     plainRequest\<lparr>req_user := Some 2, param_videoId := js ''00000000000000000000000a''\<rparr>"

definition bobWatchesDraftUpperCase :: request where
  "bobWatchesDraftUpperCase =
     plainRequest\<lparr>req_user := Some 2, param_videoId := js ''00000000000000000000000A''\<rparr>"

definition getDeletedVideo :: request where
  "getDeletedVideo = plainRequest\<lparr>param_videoId := js ''00000000000000000000000b''\<rparr>"

definition listVideosOfAlice :: request where
  "listVideosOfAlice = plainRequest\<lparr>query_userId := Some (js ''000000000000000000000001'')\<rparr>"

definition aliceSubscribesToBob :: request where
  "aliceSubscribesToBob =
     plainRequest\<lparr>req_user := Some 1, param_channelId := js ''000000000000000000000002''\<rparr>"

definition bobUnsubscribesFromAlice :: request where
  "bobUnsubscribesFromAlice =
     plainRequest\<lparr>req_user := Some 2, param_channelId := js ''000000000000000000000001''\<rparr>"

definition historyOfBob :: request where
  "historyOfBob = plainRequest\<lparr>req_user := Some 2\<rparr>"

definition historyOfUnknown :: request where
  "historyOfUnknown = plainRequest\<lparr>req_user := Some 3\<rparr>"

section \<open>Auxiliary facts\<close>

lemmas example_defs = emptyDb_def plainRequest_def testEnv_def alice_def bob_def draftVideo_def
  exampleDb_def registerBob_def registerBobAgain_def registerBobBlank_def
  registerCapitalBob_def registerCapitalBobAgain_def registerRobertSameEmail_def
  registerNoUsername_def staleRefresh_def bobViewsAlice_def bobWatchesDraft_def
  bobWatchesDraftUpperCase_def getDeletedVideo_def listVideosOfAlice_def
  aliceSubscribesToBob_def bobUnsubscribesFromAlice_def historyOfBob_def historyOfUnknown_def

lemma updateFirst_none: "find p xs = None \<Longrightarrow> updateFirst p f xs = xs"
  by (induction xs) (auto split: if_splits)

lemma find_updateFirst:
  "(\<And>x. p (f x) = p x) \<Longrightarrow> find p (updateFirst p f xs) = map_option f (find p xs)"
  by (induction xs) auto

lemma find_filter_hd:
  "find p xs = (case filter p xs of [] \<Rightarrow> None | x # _ \<Rightarrow> Some x)"
  by (induction xs) auto

subsection \<open>The text of an id\<close>

lemma length_hexN: "length (hexN k n) = k"
  by (induction k arbitrary: n) auto

lemma hexDigit_isHex: "d < 16 \<Longrightarrow> isHexDigit (hexDigit d)"
  by (auto simp: isHexDigit_def hexDigit_def)

lemma hexVal_hexDigit: "d < 16 \<Longrightarrow> hexVal (hexDigit d) = d"
  by (auto simp: hexVal_def hexDigit_def)

lemma hexN_all_hex: "list_all isHexDigit (hexN k n)"
  by (induction k arbitrary: n) (auto simp: hexDigit_isHex)

lemma hexValue_snoc: "hexValue (xs @ [c]) = 16 * hexValue xs + hexVal c"
  by (simp add: hexValue_def)

lemma hexValue_hexN: "hexValue (hexN k n) = n mod 16 ^ k"
proof (induction k arbitrary: n)
  case 0
  then show ?case by (simp add: hexValue_def)
next
  case (Suc k)
  have "hexValue (hexN (Suc k) n) = 16 * ((n div 16) mod 16 ^ k) + n mod 16"
    by (simp add: hexValue_snoc Suc.IH hexVal_hexDigit)
  also have "\<dots> = n mod (16 * 16 ^ k)"
    by (simp add: mod_mult2_eq)
  finally show ?case by simp
qed

text \<open>The text of an id casts back to the id, whatever the driver does with other texts.\<close>

lemma castObjectId_toHexString: "castObjectId e (toHexString i) = Some i"
proof -
  have "unat i < 2 ^ LENGTH(96)" by (rule unsigned_less)
  then have "unat i < 16 ^ 24" by simp
  then have "unat i mod 16 ^ 24 = unat i" by simp
  then show ?thesis
    by (simp add: castObjectId_def toHexString_def hexN_all_hex hexValue_hexN length_hexN)
qed

text \<open>A string that \<open>includes\<close> finds in an array casts to an element of the array.\<close>

lemma array_includes_cast:
  assumes "array_includes xs s" "castObjectId e s = Some i"
  shows "i \<in> set xs"
proof -
  from assms(1) obtain x where x: "x \<in> set xs" "s = toHexString x"
    by (auto simp: array_includes_def list_ex_iff)
  with assms(2) castObjectId_toHexString[of e x] show ?thesis by simp
qed

lemma array_includes_text: "array_includes xs (toHexString i) = (i \<in> set xs)"
proof
  assume "array_includes xs (toHexString i)"
  then show "i \<in> set xs"
    using array_includes_cast castObjectId_toHexString by blast
next
  assume "i \<in> set xs"
  then show "array_includes xs (toHexString i)"
    by (auto simp: array_includes_def list_ex_iff)
qed

lemma toHexString_10: "toHexString 10 = js ''00000000000000000000000a''"
  by code_simp

lemma cast_draft: "castObjectId testEnv (js ''00000000000000000000000a'') = Some 10"
  by (simp add: castObjectId_def js_def isHexDigit_def hexValue_def hexVal_def)

lemma cast_draft_upper: "castObjectId testEnv (js ''00000000000000000000000A'') = Some 10"
  by (simp add: castObjectId_def js_def isHexDigit_def hexValue_def hexVal_def)

lemma cast_deleted: "castObjectId testEnv (js ''00000000000000000000000b'') = Some 11"
  by (simp add: castObjectId_def js_def isHexDigit_def hexValue_def hexVal_def)

lemma cast_bob: "castObjectId testEnv (js ''000000000000000000000002'') = Some 2"
  by (simp add: castObjectId_def js_def isHexDigit_def hexValue_def hexVal_def)

subsection \<open>Tokens\<close>

text \<open>
  A token that the JWT library accepts and that differs from the one stored on the
  decoded account: the \<open>ApiError(401)\<close> thrown inside the \<open>try\<close> block is caught by the
  handler's own \<open>catch\<close>, which throws a 500 in its place. No token is written.
\<close>

lemma refreshAccessToken_mismatch:
  assumes "cookie_refreshToken req = Some t" "t \<noteq> []" "jwt_verify e t = Inr uid"
      and "User_findById d uid = Some u" "refreshToken u \<noteq> Some t"
  shows "refreshAccessToken e d req = (Inl (ApiError 500 ''Invalid refresh token''), d)"
  using assms by (auto simp: refreshAccessToken_def refreshAccessToken_try_def)

subsection \<open>Registration\<close>








subsection \<open>Channel profile\<close>

text \<open>
  \<open>$subscribedTo\<close> holds subscription documents, and the operand looked for is an
  ObjectId (or null), so the \<open>$in\<close> is false for every channel and every requester.
\<close>

lemma channelOf_isSubscribed: "isSubscribed (channelOf d req u) = False"
  by (auto simp: channelOf_def inArray_def Let_def split: option.splits)

subsection \<open>Video list\<close>

text \<open>With a truthy \<open>userId\<close> the handler never sends a response.\<close>

lemma getAllTheVideos_userId:
  "truthy (query_userId req) \<Longrightarrow> isl (fst (getAllTheVideos e d req))"
  by (simp add: getAllTheVideos_def Let_def readName_def videoModuleScope_def)

subsection \<open>Subscription toggle\<close>

lemma toggleSubscription_existing:
  assumes "castObjectId e (param_channelId req) = Some c" "req_user req = Some uid"
      and "find (\<lambda>s. subscriber s = uid \<and> channel s = c) (subscriptions d) = Some s"
  shows "toggleSubscription e d req =
     (Inr (respond 200 (ApiResponse 200 ''Unsubscribed successfully'' (BoolData False))),
      d\<lparr>subscriptions := deleteFirst (\<lambda>x. sub_id x = sub_id s) (subscriptions d)\<rparr>)"
  using assms by (simp add: toggleSubscription_def isValidObjectId_def)

lemma toggleSubscription_absent:
  assumes "castObjectId e (param_channelId req) = Some c" "req_user req = Some uid"
      and "find (\<lambda>s. subscriber s = uid \<and> channel s = c) (subscriptions d) = None"
  shows "toggleSubscription e d req =
     (Inr (respond 200 (ApiResponse 200 ''Subscribed successfully''
        (SubscriptionData \<lparr>sub_id = freshId (map sub_id (subscriptions d)),
                            subscriber = uid, channel = c\<rparr>))),
      d\<lparr>subscriptions := subscriptions d @
           [\<lparr>sub_id = freshId (map sub_id (subscriptions d)), subscriber = uid, channel = c\<rparr>]\<rparr>)"
  using assms by (simp add: toggleSubscription_def isValidObjectId_def ApiResponse4_def Let_def)

subsection \<open>Fetching a video\<close>

lemma getSingleVideo_missing:
  assumes "castObjectId e (param_videoId req) = Some vid" "Video_findById d vid = None"
  shows "getSingleVideo e d req = (Inl (ApiError 500 ''Failed to fetch video''), d)"
proof -
  have "find (\<lambda>v. video_id v = vid) (videos d) = None"
    using assms(2) by (simp add: Video_findById_def)
  then have "updateFirst (\<lambda>v. video_id v = vid) (\<lambda>v. v\<lparr>views := views v + 1\<rparr>) (videos d)
               = videos d"
    by (rule updateFirst_none)
  then show ?thesis using assms
    by (simp add: getSingleVideo_def getSingleVideo_try_def isValidObjectId_def)
qed

lemma getSingleVideo_found:
  assumes "castObjectId e (param_videoId req) = Some vid" "Video_findById d vid = Some v"
  shows "\<exists>res d' pv. getSingleVideo e d req = (Inr res, d')
           \<and> httpStatus res = 200
           \<and> data (json res) = VideoData pv \<and> pv_video pv = v\<lparr>views := views v + 1\<rparr>
           \<and> Video_findById d' vid = Some (v\<lparr>views := views v + 1\<rparr>)
           \<and> (case req_user req of
                 None \<Rightarrow> users d' = users d
               | Some uid \<Rightarrow> User_findById d' uid =
                   map_option (\<lambda>u. if array_includes (watchHistory u) (param_videoId req) then u
                                    else u\<lparr>watchHistory := watchHistory u @ [vid]\<rparr>)
                     (User_findById d uid))"
  using assms
  by (auto simp: getSingleVideo_def getSingleVideo_try_def isValidObjectId_def Let_def respond_def
      ApiResponse_def populateOwner_def User_findById_def Video_findById_def
      find_updateFirst split: option.splits)

lemma getSingleVideo_step:
  assumes "castObjectId e (param_videoId req) = Some vid" "Video_findById d vid = Some v"
          "req_user req = Some uid" "User_findById d uid = Some u"
  shows "Video_findById (snd (getSingleVideo e d req)) vid = Some (v\<lparr>views := views v + 1\<rparr>)"
    and "User_findById (snd (getSingleVideo e d req)) uid =
           Some (if array_includes (watchHistory u) (param_videoId req) then u
                 else u\<lparr>watchHistory := watchHistory u @ [vid]\<rparr>)"
  using getSingleVideo_found[OF assms(1,2)] assms(3,4) by auto

text \<open>
  With the id written as the database writes it (24 hex digits in lower case), a fetch
  leaves a history that has the video as it is, and adds the video once to a history
  that has it not: after \<open>n\<close> fetches the counter has grown by \<open>n\<close>, and from the first
  fetch on the video is in the history as often as before, or once.
\<close>

lemma count_after_push:
  "count_list (watchHistory (if array_includes (watchHistory u) (toHexString k) then u
                              else u\<lparr>watchHistory := watchHistory u @ [k]\<rparr>)) k
     = max 1 (count_list (watchHistory u) k)"
proof (cases "k \<in> set (watchHistory u)")
  case True
  then have "count_list (watchHistory u) k \<noteq> 0" by (simp add: count_list_0_iff)
  with True show ?thesis by (simp add: max_def array_includes_text)
next
  case False
  then have "count_list (watchHistory u) k = 0" by (simp add: count_list_0_iff)
  with False show ?thesis by (simp add: array_includes_text)
qed

lemma repeatGet_lower_case:
  assumes "param_videoId req = toHexString vid" "req_user req = Some uid"
  shows "Video_findById d vid = Some v \<Longrightarrow> User_findById d uid = Some u \<Longrightarrow>
         (\<exists>v' u'. Video_findById (repeatGet n e d req) vid = Some v' \<and> views v' = views v + n
            \<and> User_findById (repeatGet n e d req) uid = Some u'
            \<and> count_list (watchHistory u') vid =
                (if n = 0 then count_list (watchHistory u) vid
                 else max 1 (count_list (watchHistory u) vid)))"
proof (induction n arbitrary: d v u)
  case 0
  then show ?case by simp
next
  case (Suc n)
  have cast: "castObjectId e (param_videoId req) = Some vid"
    by (simp add: assms(1) castObjectId_toHexString)
  let ?d1 = "snd (getSingleVideo e d req)"
  let ?u1 = "if array_includes (watchHistory u) (toHexString vid) then u
             else u\<lparr>watchHistory := watchHistory u @ [vid]\<rparr>"
  have v1: "Video_findById ?d1 vid = Some (v\<lparr>views := views v + 1\<rparr>)"
    and u1: "User_findById ?d1 uid = Some ?u1"
    using getSingleVideo_step[OF cast Suc.prems(1) assms(2) Suc.prems(2)]
    by (simp_all add: assms(1))
  from Suc.IH[OF v1 u1] obtain v' u' where
    h: "Video_findById (repeatGet n e ?d1 req) vid = Some v'"
       "views v' = views (v\<lparr>views := views v + 1\<rparr>) + n"
       "User_findById (repeatGet n e ?d1 req) uid = Some u'"
       "count_list (watchHistory u') vid =
          (if n = 0 then count_list (watchHistory ?u1) vid
           else max 1 (count_list (watchHistory ?u1) vid))"
    by blast
  have c: "count_list (watchHistory ?u1) vid = max 1 (count_list (watchHistory u) vid)"
    by (rule count_after_push)
  have "count_list (watchHistory u') vid = max 1 (count_list (watchHistory u) vid)"
    using h(4) unfolding c by (simp add: max_def)
  with h(1,2,3) show ?case by simp
qed

section \<open>The claims\<close>

text \<open>
  C1. A refresh request carries \<open>stale-token\<close>, which the JWT library accepts for user 1,
  while user 1 stores \<open>current-token\<close>. The handler fails and writes no token, but the
  error it throws has status 500, not 401: the 401 thrown inside the \<open>try\<close> block is
  replaced by the \<open>catch\<close>.
\<close>

theorem refreshAccessToken_stale_token_status:
  "jwt_verify testEnv (js ''stale-token'') = Inr 1
   \<and> map_option refreshToken (User_findById exampleDb 1) = Some (Some (js ''current-token''))
   \<and> refreshAccessToken testEnv exampleDb staleRefresh
       = (Inl (ApiError 500 ''Invalid refresh token''), exampleDb)"
  by (simp add: example_defs js_def refreshAccessToken_def refreshAccessToken_try_def
      User_findById_def)




text \<open>
  C3. A registration whose body has no \<open>username\<close> (the other fields and the avatar are
  there) passes the field validation, since \<open>field?.trim() === ""\<close> is false for a
  missing field; on an empty database it gets as far as \<open>username.toLowerCase()\<close>, which
  throws a \<open>TypeError\<close>. No 400 is thrown, whatever the collaborators do.
\<close>

theorem register_missing_username_not_validated:
  "register e emptyDb registerNoUsername
     = (Inl (TypeError ''Cannot read properties of undefined''), emptyDb)"
  by (simp add: example_defs js_def register_def trim_def isWhiteSpace_def
      User_findOne_username_or_email_def avatarPath_def Let_def)

text \<open>
  C4. User 2 is subscribed to the channel of \<open>alice\<close> (user 1) and asks for her profile:
  the subscription is among the channel's subscribers, and \<open>isSubscribed\<close> is false.
\<close>

theorem getUserChannelProfile_isSubscribed_false:
  "\<lparr>sub_id = 100, subscriber = 2, channel = 1\<rparr> \<in> set (subscriptions exampleDb)
   \<and> fst (getUserChannelProfile exampleDb bobViewsAlice)
     = Inr (respond 200 (ApiResponse 200 ''success'' (ChannelData
         \<lparr>cp_user = safe alice,
          cp_subscribers = [\<lparr>sub_id = 100, subscriber = 2, channel = 1\<rparr>],
          cp_subscribedTo = [], subscribersCount = 1, subscribedToCount = 0,
          isSubscribed = False\<rparr>)))"
  by (simp add: example_defs js_def getUserChannelProfile_def channelOf_def trim_def
      isWhiteSpace_def inArray_def Let_def)

text \<open>
  C5. A well-formed video id that no stored video has: the handler throws an error of
  status 500, "Failed to fetch video". The 404 thrown inside the \<open>try\<close> block is replaced
  by the \<open>catch\<close>.
\<close>

theorem getSingleVideo_missing_video_status:
  "Video_findById exampleDb 11 = None
   \<and> getSingleVideo testEnv exampleDb getDeletedVideo
       = (Inl (ApiError 500 ''Failed to fetch video''), exampleDb)"
proof -
  have c: "castObjectId testEnv (param_videoId getDeletedVideo) = Some 11"
    using cast_deleted by (simp add: getDeletedVideo_def plainRequest_def)
  have n: "Video_findById exampleDb 11 = None"
    by (simp add: example_defs Video_findById_def)
  show ?thesis using getSingleVideo_missing[OF c n] n by simp
qed

text \<open>
  C6. A list request with \<open>userId\<close> set to the id of user 1: the handler throws a
  \<open>ReferenceError\<close>, since the module of the video handlers does not bind \<open>mongoose\<close>. No
  page is returned.
\<close>

theorem getAllTheVideos_userId_throws:
  "getAllTheVideos testEnv exampleDb listVideosOfAlice
     = (Inl (ReferenceError ''mongoose is not defined''), exampleDb)"
  by (simp add: example_defs js_def getAllTheVideos_def toLowerCase_def lowerAscii_def
      readName_def videoModuleScope_def Let_def)

text \<open>
  C7. User 1 toggles the subscription to channel 2, to which there is no edge yet: the
  edge is created, and the payload of the response is the new subscription document, not
  the boolean true.
\<close>

theorem toggleSubscription_subscribe_payload:
  "toggleSubscription testEnv exampleDb aliceSubscribesToBob
     = (Inr \<lparr>httpStatus = 200, cookies = [],
             json = \<lparr>statusCode = 200, message = ''Subscribed successfully'',
                     data = SubscriptionData \<lparr>sub_id = 101, subscriber = 1, channel = 2\<rparr>\<rparr>\<rparr>,
        exampleDb\<lparr>subscriptions :=
          [\<lparr>sub_id = 100, subscriber = 2, channel = 1\<rparr>,
           \<lparr>sub_id = 101, subscriber = 1, channel = 2\<rparr>]\<rparr>)"
proof -
  have c: "castObjectId testEnv (param_channelId aliceSubscribesToBob) = Some 2"
    using cast_bob by (simp add: aliceSubscribesToBob_def plainRequest_def)
  have u: "req_user aliceSubscribesToBob = Some 1"
    by (simp add: aliceSubscribesToBob_def plainRequest_def)
  have n: "find (\<lambda>s. subscriber s = 1 \<and> channel s = 2) (subscriptions exampleDb) = None"
    by (simp add: exampleDb_def)
  show ?thesis
    unfolding toggleSubscription_absent[OF c u n]
    by (simp add: exampleDb_def respond_def ApiResponse_def freshId_def)
qed

text \<open>
  C8, as amended. For an authenticated request: when the user record cannot be found,
  the handler sends, without throwing, a response of status 404 "Watch history not found"
  with no data; when the user is found and the watch history is empty, it sends a
  response of status 200 whose data is the empty list. The database is unchanged.
\<close>

theorem getWatchHistory_empty_or_missing:
  assumes "req_user req = Some uid"
  shows "(User_findById d uid = None \<longrightarrow>
            getWatchHistory d req =
              (Inr (respond 404 (ApiResponse 404 ''Watch history not found'' NoData)), d))
       \<and> (\<forall>u. User_findById d uid = Some u \<and> watchHistory u = [] \<longrightarrow>
            getWatchHistory d req =
              (Inr (respond 200 (ApiResponse 200 ''success'' (HistoryData []))), d))"
proof -
  have eq: "(\<lambda>u. Some (user_id u) = req_user req) = (\<lambda>u. user_id u = uid)"
    using assms by auto
  show ?thesis
    unfolding getWatchHistory_def User_findById_def eq find_filter_hd[of "\<lambda>u. user_id u = uid"]
    by (auto simp: Let_def truthyArray_def lookupHistory_def split: list.splits)
qed

text \<open>
  C8, witness: the history of user 3, who is not stored, and the history of \<open>bob\<close>, which
  is empty.
\<close>

theorem getWatchHistory_empty_or_missing_witness:
  "req_user historyOfUnknown = Some 3 \<and> User_findById exampleDb 3 = None
   \<and> getWatchHistory exampleDb historyOfUnknown =
       (Inr (respond 404 (ApiResponse 404 ''Watch history not found'' NoData)), exampleDb)
   \<and> req_user historyOfBob = Some 2 \<and> User_findById exampleDb 2 = Some bob
   \<and> watchHistory bob = []
   \<and> getWatchHistory exampleDb historyOfBob =
       (Inr (respond 200 (ApiResponse 200 ''success'' (HistoryData []))), exampleDb)"
proof -
  have a: "req_user historyOfUnknown = Some 3" by (simp add: example_defs)
  have b: "User_findById exampleDb 3 = None" by (simp add: example_defs User_findById_def)
  have c: "req_user historyOfBob = Some 2" by (simp add: example_defs)
  have d: "User_findById exampleDb 2 = Some bob" by (simp add: example_defs User_findById_def)
  have e: "watchHistory bob = []" by (simp add: bob_def)
  show ?thesis
    using getWatchHistory_empty_or_missing[OF a, of exampleDb]
          getWatchHistory_empty_or_missing[OF c, of exampleDb] a b c d e
    by simp
qed

text \<open>
  C8, counterexample to the claim as it stands: for a user that is not stored the
  response has status 404, in the HTTP status and in the envelope.
\<close>

theorem getWatchHistory_unknown_user_status:
  "getWatchHistory exampleDb historyOfUnknown
     = (Inr \<lparr>httpStatus = 404, cookies = [],
             json = \<lparr>statusCode = 404, message = ''Watch history not found'',
                     data = NoData\<rparr>\<rparr>,
        exampleDb)"
  by (simp add: example_defs getWatchHistory_def respond_def ApiResponse_def)

text \<open>
  C9. User 2, whose history is empty, fetches the stored video 10 twice in a row, with
  the id written with an upper-case hex digit. Both fetches succeed and the view counter
  grows by 2, but the video is then twice in the history of the user: \<open>includes\<close> is
  asked for the text of the route, which is not the lower-case text of the stored id, so
  each fetch appends the id again.
\<close>

theorem getSingleVideo_upper_case_id_repeats:
  "castObjectId testEnv (param_videoId bobWatchesDraftUpperCase) = Some 10
   \<and> req_user bobWatchesDraftUpperCase = Some 2
   \<and> Video_findById exampleDb 10 = Some draftVideo
   \<and> map_option watchHistory (User_findById exampleDb 2) = Some []
   \<and> map_option views
        (Video_findById (repeatGet 2 testEnv exampleDb bobWatchesDraftUpperCase) 10)
       = Some (views draftVideo + 2)
   \<and> map_option watchHistory
        (User_findById (repeatGet 2 testEnv exampleDb bobWatchesDraftUpperCase) 2)
       = Some [10, 10]"
proof -
  have c: "castObjectId testEnv (param_videoId bobWatchesDraftUpperCase) = Some 10"
    using cast_draft_upper by (simp add: bobWatchesDraftUpperCase_def plainRequest_def)
  have r: "req_user bobWatchesDraftUpperCase = Some 2"
    by (simp add: bobWatchesDraftUpperCase_def plainRequest_def)
  have ne: "\<not> array_includes xs (param_videoId bobWatchesDraftUpperCase)" for xs
  proof
    assume "array_includes xs (param_videoId bobWatchesDraftUpperCase)"
    then obtain x where "param_videoId bobWatchesDraftUpperCase = toHexString x"
      by (auto simp: array_includes_def list_ex_iff)
    moreover from this c castObjectId_toHexString[of testEnv x] have "x = 10" by simp
    ultimately show False
      by (simp add: toHexString_10 bobWatchesDraftUpperCase_def plainRequest_def js_def)
  qed
  have v0: "Video_findById exampleDb 10 = Some draftVideo"
    by (simp add: example_defs Video_findById_def)
  have u0: "User_findById exampleDb 2 = Some bob"
    by (simp add: example_defs User_findById_def)
  let ?d1 = "snd (getSingleVideo testEnv exampleDb bobWatchesDraftUpperCase)"
  have v1: "Video_findById ?d1 10 = Some (draftVideo\<lparr>views := views draftVideo + 1\<rparr>)"
    and u1: "User_findById ?d1 2 = Some (bob\<lparr>watchHistory := watchHistory bob @ [10]\<rparr>)"
    using getSingleVideo_step[OF c v0 r u0] by (simp_all add: ne)
  let ?d2 = "snd (getSingleVideo testEnv ?d1 bobWatchesDraftUpperCase)"
  have v2: "Video_findById ?d2 10 = Some (draftVideo\<lparr>views := views draftVideo + 2\<rparr>)"
    and u2: "User_findById ?d2 2 = Some (bob\<lparr>watchHistory := watchHistory bob @ [10, 10]\<rparr>)"
    using getSingleVideo_step[OF c v1 r u1] by (simp_all add: ne)
  have rep: "repeatGet 2 testEnv exampleDb bobWatchesDraftUpperCase = ?d2"
    by (simp add: numeral_2_eq_2)
  show ?thesis
    unfolding rep using c r v0 u0 v2 u2 by (simp add: bob_def)
qed

text \<open>
  C10. Every stored video is returned by \<open>getSingleVideo\<close> with status 200, whatever its
  \<open>isPublished\<close> flag and whoever asks: the flag comes back as it is stored, the view
  counter is one higher in the response and in the database, and after the call the
  video is in the watch history of a requester whose user record exists.
\<close>

theorem getSingleVideo_unpublished:
  assumes "castObjectId e (param_videoId req) = Some vid" and "Video_findById d vid = Some v"
  shows "\<exists>res d' pv. getSingleVideo e d req = (Inr res, d')
           \<and> httpStatus res = 200 \<and> data (json res) = VideoData pv
           \<and> video_id (pv_video pv) = video_id v
           \<and> isPublished (pv_video pv) = isPublished v
           \<and> views (pv_video pv) = views v + 1
           \<and> map_option views (Video_findById d' vid) = Some (views v + 1)
           \<and> (case req_user req of
                 None \<Rightarrow> users d' = users d
               | Some uid \<Rightarrow>
                   (case User_findById d uid of
                      None \<Rightarrow> User_findById d' uid = None
                    | Some u \<Rightarrow>
                        map_option (\<lambda>u'. vid \<in> set (watchHistory u')) (User_findById d' uid)
                          = Some True))"
proof -
  from getSingleVideo_found[OF assms] obtain res d' pv where
    h: "getSingleVideo e d req = (Inr res, d')" "httpStatus res = 200"
       "data (json res) = VideoData pv" "pv_video pv = v\<lparr>views := views v + 1\<rparr>"
       "Video_findById d' vid = Some (v\<lparr>views := views v + 1\<rparr>)"
       "(case req_user req of
           None \<Rightarrow> users d' = users d
         | Some uid \<Rightarrow> User_findById d' uid =
             map_option (\<lambda>u. if array_includes (watchHistory u) (param_videoId req) then u
                              else u\<lparr>watchHistory := watchHistory u @ [vid]\<rparr>)
               (User_findById d uid))"
    by blast
  have "(case req_user req of
           None \<Rightarrow> users d' = users d
         | Some uid \<Rightarrow>
             (case User_findById d uid of
                None \<Rightarrow> User_findById d' uid = None
              | Some u \<Rightarrow>
                  map_option (\<lambda>u'. vid \<in> set (watchHistory u')) (User_findById d' uid)
                    = Some True))"
    using h(6) array_includes_cast[OF _ assms(1)] by (auto split: option.splits)
  with h(1-5) show ?thesis by simp
qed

text \<open>C10, witness: \<open>bob\<close> fetches the video of \<open>alice\<close> that is not published.\<close>

theorem getSingleVideo_unpublished_witness:
  "castObjectId testEnv (param_videoId bobWatchesDraft) = Some 10
   \<and> Video_findById exampleDb 10 = Some draftVideo
   \<and> isPublished draftVideo = False \<and> req_user bobWatchesDraft = Some 2
   \<and> User_findById exampleDb 2 = Some bob
   \<and> (\<exists>res d' pv. getSingleVideo testEnv exampleDb bobWatchesDraft = (Inr res, d')
         \<and> httpStatus res = 200 \<and> data (json res) = VideoData pv
         \<and> isPublished (pv_video pv) = False \<and> views (pv_video pv) = 1
         \<and> map_option views (Video_findById d' 10) = Some 1
         \<and> map_option (\<lambda>u'. 10 \<in> set (watchHistory u')) (User_findById d' 2) = Some True)"
proof -
  have a: "castObjectId testEnv (param_videoId bobWatchesDraft) = Some 10"
    using cast_draft by (simp add: bobWatchesDraft_def plainRequest_def)
  have b: "Video_findById exampleDb 10 = Some draftVideo"
    by (simp add: example_defs Video_findById_def)
  have c: "isPublished draftVideo = False" "views draftVideo = 0"
    by (simp_all add: draftVideo_def)
  have d: "req_user bobWatchesDraft = Some 2" by (simp add: bobWatchesDraft_def plainRequest_def)
  have e: "User_findById exampleDb 2 = Some bob" by (simp add: example_defs User_findById_def)
  show ?thesis using getSingleVideo_unpublished[OF a b] a b c d e by auto
qed

end
